theory Spec2Isabelle
  imports Complex_Main
begin

section \<open>Symbolic triangle-triangle intersection (geogram/mesh/triangle\_intersection.h)\<close>

subsection \<open>Region codes\<close>

text \<open>
  The enumeration \<open>TriangleRegion\<close> of the header, enumerator by enumerator and in the
  header's order. The last enumerator, \<open>T_RGN_NB\<close>, is the header's count of the
  regions; it names no region of a triangle.
\<close>

datatype TriangleRegion =
    T1_RGN_P0 | T1_RGN_P1 | T1_RGN_P2
  | T2_RGN_P0 | T2_RGN_P1 | T2_RGN_P2
  | T1_RGN_E0 | T1_RGN_E1 | T1_RGN_E2
  | T2_RGN_E0 | T2_RGN_E1 | T2_RGN_E2
  | T1_RGN_T | T2_RGN_T
  | T_RGN_NB

text \<open>The integer value the header gives to each enumerator.\<close>

fun region_code :: "TriangleRegion \<Rightarrow> nat" where
  "region_code T1_RGN_P0 = 0"
| "region_code T1_RGN_P1 = 1"
| "region_code T1_RGN_P2 = 2"
| "region_code T2_RGN_P0 = 3"
| "region_code T2_RGN_P1 = 4"
| "region_code T2_RGN_P2 = 5"
| "region_code T1_RGN_E0 = 6"
| "region_code T1_RGN_E1 = 7"
| "region_code T1_RGN_E2 = 8"
| "region_code T2_RGN_E0 = 9"
| "region_code T2_RGN_E1 = 10"
| "region_code T2_RGN_E2 = 11"
| "region_code T1_RGN_T = 12"
| "region_code T2_RGN_T = 13"
| "region_code T_RGN_NB = 14"

text \<open>The symbols of the first and of the second triangle: vertices, edges, interior.\<close>

definition T1_regions :: "TriangleRegion list" where
  "T1_regions =
     [T1_RGN_P0, T1_RGN_P1, T1_RGN_P2, T1_RGN_E0, T1_RGN_E1, T1_RGN_E2, T1_RGN_T]"

definition T2_regions :: "TriangleRegion list" where
  "T2_regions =
     [T2_RGN_P0, T2_RGN_P1, T2_RGN_P2, T2_RGN_E0, T2_RGN_E1, T2_RGN_E2, T2_RGN_T]"

text \<open>\<open>typedef std::pair<TriangleRegion, TriangleRegion> TriangleIsect\<close>\<close>

type_synonym TriangleIsect = "TriangleRegion \<times> TriangleRegion"

subsection \<open>Points\<close>

text \<open>
  Modelled from the spec: the 3D point type \<open>vec3\<close> of \<open>geogram/basic/geometry.h\<close>,
  which the header includes but does not declare itself: "a 3D point/vector numeric type
  with component access and standard arithmetic". The coordinates are rationals: every
  finite floating-point number is one, and the specification asks for exact signs.
\<close>

record vec3 =
  x :: rat
  y :: rat
  z :: rat

subsection \<open>The boolean-only overload\<close>

text \<open>
  The seven-argument \<open>triangles_intersections\<close> is declared in the header and defined
  elsewhere. It writes its out-parameter \<open>result\<close> and returns a boolean, so a call is a
  function from the six points and the vector's contents before the call to the boolean and
  the vector's contents after the call.
\<close>

type_synonym full_overload =
  "vec3 \<Rightarrow> vec3 \<Rightarrow> vec3 \<Rightarrow> vec3 \<Rightarrow> vec3 \<Rightarrow> vec3 \<Rightarrow> TriangleIsect list
     \<Rightarrow> bool \<times> TriangleIsect list"

text \<open>
  The inline overload: it declares a local, empty \<open>vector<TriangleIsect> result\<close>, calls the
  seven-argument overload \<open>full\<close> on it and returns that call's boolean. The local vector
  is dropped on return.
\<close>

definition triangles_intersections_bool ::
  "full_overload \<Rightarrow> vec3 \<Rightarrow> vec3 \<Rightarrow> vec3 \<Rightarrow> vec3 \<Rightarrow> vec3 \<Rightarrow> vec3 \<Rightarrow> bool" where
  "triangles_intersections_bool full p0 p1 p2 q0 q1 q2 =
     (let result = [] in
      case full p0 p1 p2 q0 q1 q2 result of (b, result') \<Rightarrow> b)"

subsection \<open>Output streams\<close>

text \<open>
  \<open>std::ostream\<close> belongs to the C++ standard library. The two printing operators of the
  header use one operation of it, the formatted insertion of a character string
  (\<open>out << "("\<close> for a literal, \<open>out << s\<close> for a \<open>std::string\<close>). The record keeps what
  this operation reads and writes:
  \<^item> \<open>os_text\<close>: the characters the stream buffer has taken so far;
  \<^item> \<open>os_room\<close>: how many more characters the buffer takes before a write to it fails, \<open>None\<close>
    for a buffer that never fails (a string stream);
  \<^item> \<open>os_good\<close>: the result of \<open>good()\<close>, no error bit set; the three error bits are kept
    as this one flag (an insertion into a stream that is not good may set \<open>failbit\<close>, which
    leaves \<open>good()\<close> false);
  \<^item> \<open>os_width\<close>, \<open>os_fill\<close>: the pending field width \<open>width()\<close> and the fill character
    \<open>fill()\<close>;
  \<^item> \<open>os_left\<close>: whether the adjustment flag is \<open>left\<close>.
  The exception mask is taken at its default (no bit set, so setting an error bit never
  throws), and the stream is taken to have no tied stream and no \<open>unitbuf\<close> flag.
\<close>

record ostream =
  os_text :: string
  os_room :: "nat option"
  os_good :: bool
  os_width :: nat
  os_fill :: char
  os_left :: bool

text \<open>
  Handing the characters \<open>s\<close> to the stream buffer (\<open>rdbuf()->sputn\<close>): the buffer takes as
  many as it has room for; when it does not take all of them the stream sets \<open>badbit\<close>.
\<close>

definition ostream_write :: "ostream \<Rightarrow> string \<Rightarrow> ostream" where
  "ostream_write out s =
     (case os_room out of
        None \<Rightarrow> out\<lparr>os_text := os_text out @ s\<rparr>
      | Some r \<Rightarrow>
          if length s \<le> r
          then out\<lparr>os_text := os_text out @ s, os_room := Some (r - length s)\<rparr>
          else out\<lparr>os_text := os_text out @ take r s, os_room := Some 0, os_good := False\<rparr>)"

text \<open>Writing \<open>n\<close> copies of the fill character, up to the first that the buffer refuses.\<close>

definition ostream_fill :: "ostream \<Rightarrow> nat \<Rightarrow> ostream" where
  "ostream_fill out n = ostream_write out (replicate n (os_fill out))"

text \<open>
  The formatted insertion \<open>out << s\<close> of a string. Its sentry fails on a stream that is not
  good, and then nothing is written and the field width stays. Otherwise a string shorter
  than the field width is padded with the fill character, after the string when the
  adjustment is \<open>left\<close> and before it otherwise, each part written only while the stream is
  still good; at the end the field width is reset to 0. The stream is handed back.
\<close>

definition put_string :: "ostream \<Rightarrow> string \<Rightarrow> ostream" where
  "put_string out s =
     (if os_good out then
        (let n = length s;
             w = os_width out;
             written =
               (if n < w then
                  (let o1 = (if os_left out then out else ostream_fill out (w - n));
                       o2 = (if os_good o1 then ostream_write o1 s else o1)
                   in if os_left out \<and> os_good o2 then ostream_fill o2 (w - n) else o2)
                else ostream_write out s)
         in written\<lparr>os_width := 0\<rparr>)
      else out)"

subsection \<open>Printing\<close>

text \<open>
  \<open>operator<<(std::ostream&, const TriangleIsect&)\<close>: five formatted insertions in a row,
  \<open>out << "(" << region_to_string(I.first) << "," << region_to_string(I.second) << ")"\<close>.
  \<open>region_to_string\<close> is declared in the header and defined elsewhere: it is the parameter
  \<open>r2s\<close>.
\<close>

definition put_isect :: "(TriangleRegion \<Rightarrow> string) \<Rightarrow> ostream \<Rightarrow> TriangleIsect \<Rightarrow> ostream" where
  "put_isect r2s out I =
     put_string
       (put_string
          (put_string
             (put_string (put_string out ''('') (r2s (fst I)))
             '','')
          (r2s (snd I)))
       '')''"

text \<open>
  \<open>operator<<(std::ostream&, vector<TriangleIsect>&)\<close>: the loop
  \<open>for(index_t i=0; i<II.size(); ++i) { out << II[i] << " "; }\<close> from index \<open>i\<close> on.
  The guard keeps \<open>i\<close> below the size, so \<open>II[i]\<close> is always in range and \<open>++i\<close> never
  passes the size.
\<close>

function put_isects_from ::
  "(TriangleRegion \<Rightarrow> string) \<Rightarrow> TriangleIsect list \<Rightarrow> nat \<Rightarrow> ostream \<Rightarrow> ostream" where
  "put_isects_from r2s II i out =
     (if i < length II
      then put_isects_from r2s II (Suc i) (put_string (put_isect r2s out (II ! i)) '' '')
      else out)"
  by pat_completeness auto
termination
  by (relation "measure (\<lambda>(r2s, II, i, out). length II - i)") auto

declare put_isects_from.simps [simp del]

definition put_isects :: "(TriangleRegion \<Rightarrow> string) \<Rightarrow> ostream \<Rightarrow> TriangleIsect list \<Rightarrow> ostream" where
  "put_isects r2s out II = put_isects_from r2s II 0 out"

text \<open>
  The text the printing of one element is meant to produce, and the text for a vector: the
  elements in index order, each followed by one space.
\<close>

definition isect_text :: "(TriangleRegion \<Rightarrow> string) \<Rightarrow> TriangleIsect \<Rightarrow> string" where
  "isect_text r2s I = ''('' @ r2s (fst I) @ '','' @ r2s (snd I) @ '')''"

definition isects_text :: "(TriangleRegion \<Rightarrow> string) \<Rightarrow> TriangleIsect list \<Rightarrow> string" where
  "isects_text r2s II = concat (map (\<lambda>I. isect_text r2s I @ '' '') II)"

text \<open>The buffer of the stream has room for \<open>n\<close> more characters.\<close>

definition has_room :: "ostream \<Rightarrow> nat \<Rightarrow> bool" where
  "has_room out n = (case os_room out of None \<Rightarrow> True | Some r \<Rightarrow> n \<le> r)"

text \<open>
  The stream after its buffer has taken the characters \<open>s\<close> and nothing else has happened
  to it: the text grows by \<open>s\<close>, the room shrinks by its length.
\<close>

definition appended :: "ostream \<Rightarrow> string \<Rightarrow> ostream" where
  "appended out s =
     out\<lparr>os_text := os_text out @ s,
         os_room := (case os_room out of None \<Rightarrow> None | Some r \<Rightarrow> Some (r - length s))\<rparr>"

text \<open>
  Values for the examples below: a naming of the regions (\<open>a\<close> for \<open>T1_RGN_P0\<close>, \<open>b\<close>
  for every other region), and three streams that already hold the text \<open>x\<close>: one in good
  state with no pending width and room for 20 characters, one that is not in good state, and
  one in good state with a pending field width of 3 and fill character \<open>*\<close>.
\<close>

definition sample_names :: "TriangleRegion \<Rightarrow> string" where
  "sample_names r = (if r = T1_RGN_P0 then ''a'' else ''b'')"

definition good_stream :: ostream where
  "good_stream =
     \<lparr>os_text = ''x'', os_room = Some 20, os_good = True, os_width = 0,
      os_fill = CHR ''*'', os_left = False\<rparr>"

definition failed_stream :: ostream where
  "failed_stream =
     \<lparr>os_text = ''x'', os_room = None, os_good = False, os_width = 0,
      os_fill = CHR ''*'', os_left = False\<rparr>"

definition padding_stream :: ostream where
  "padding_stream =
     \<lparr>os_text = ''x'', os_room = None, os_good = True, os_width = 3,
      os_fill = CHR ''*'', os_left = False\<rparr>"

section \<open>The seven-argument overload, from its specification\<close>

text \<open>
  The header declares \<open>triangles_intersections(p0,p1,p2,q0,q1,q2,result)\<close> and documents
  it; its body is not part of the header. The definitions of this section follow the
  specification of the routine, component by component.
\<close>

subsection \<open>Vector arithmetic and valid triangles\<close>

text \<open>Modelled from the spec: the subtraction of the missing vector type.\<close>

definition vsub :: "vec3 \<Rightarrow> vec3 \<Rightarrow> vec3" where
  "vsub a b = \<lparr>x = x a - x b, y = y a - y b, z = z a - z b\<rparr>"

text \<open>Modelled from the spec: the cross product of the missing vector type.\<close>

definition cross :: "vec3 \<Rightarrow> vec3 \<Rightarrow> vec3" where
  "cross a b =
     \<lparr>x = y a * z b - z a * y b, y = z a * x b - x a * z b, z = x a * y b - y a * x b\<rparr>"

text \<open>Modelled from the spec: the dot product of the missing vector type.\<close>

definition dot :: "vec3 \<Rightarrow> vec3 \<Rightarrow> rat" where
  "dot a b = x a * x b + y a * y b + z a * z b"

text \<open>
  Modelled from the spec: the precondition on an input triangle, which the routine does not
  check, "each input triangle's three vertices are pairwise distinct and non-collinear".
\<close>

definition valid_triangle :: "vec3 \<Rightarrow> vec3 \<Rightarrow> vec3 \<Rightarrow> bool" where
  "valid_triangle p0 p1 p2 =
     (p0 \<noteq> p1 \<and> p1 \<noteq> p2 \<and> p0 \<noteq> p2
      \<and> cross (vsub p1 p0) (vsub p2 p0) \<noteq> \<lparr>x = 0, y = 0, z = 0\<rparr>)"

subsection \<open>Orientation predicate and vertex classifier\<close>

text \<open>Modelled from the spec: the three values of a sign, "strictly negative, zero, or
  strictly positive".\<close>

datatype Sign = NEGATIVE | ZERO | POSITIVE

text \<open>Modelled from the spec: the exact sign of a number.\<close>

definition sign_of :: "rat \<Rightarrow> Sign" where
  "sign_of r = (if r < 0 then NEGATIVE else if r = 0 then ZERO else POSITIVE)"

text \<open>
  Modelled from the spec: the Orientation Predicate, "given four 3D points A,B,C,D, compute
  the sign of the signed volume of the tetrahedron they form", exact with respect to the
  sign. The signed volume is taken up to its positive factor: the triple product of the
  three edge vectors at A.
\<close>

definition orient_3d :: "vec3 \<Rightarrow> vec3 \<Rightarrow> vec3 \<Rightarrow> vec3 \<Rightarrow> Sign" where
  "orient_3d a b c d = sign_of (dot (cross (vsub b a) (vsub c a)) (vsub d a))"

text \<open>
  Modelled from the spec: the Vertex Classifier, "given a triangle (p0,p1,p2) defining a
  plane, and a point q, return the sign of Orientation(p0,p1,p2,q)".
\<close>

definition classify :: "vec3 \<Rightarrow> vec3 \<Rightarrow> vec3 \<Rightarrow> vec3 \<Rightarrow> Sign" where
  "classify p0 p1 p2 q = orient_3d p0 p1 p2 q"

text \<open>
  Modelled from the spec: a sign-triple, the classifier "applied ... each vertex of triangle 2
  against the plane of triangle 1, and vice versa". \<open>sign_triple a b c u v w\<close> classifies
  the vertices \<open>u, v, w\<close> against the plane of the triangle \<open>(a,b,c)\<close>.
\<close>

type_synonym sign_triple = "Sign \<times> Sign \<times> Sign"

definition sign_triple :: "vec3 \<Rightarrow> vec3 \<Rightarrow> vec3 \<Rightarrow> vec3 \<Rightarrow> vec3 \<Rightarrow> vec3 \<Rightarrow> sign_triple" where
  "sign_triple a b c u v w = (classify a b c u, classify a b c v, classify a b c w)"

subsection \<open>Topology dispatcher\<close>

text \<open>
  Modelled from the spec: "a uniform sign (all positive or all negative, none zero) means
  the whole triangle lies strictly to one side".
\<close>

fun one_side :: "sign_triple \<Rightarrow> bool" where
  "one_side (a, b, c) = (a = b \<and> b = c \<and> (a = NEGATIVE \<or> a = POSITIVE))"

text \<open>Modelled from the spec: the vertices of a triangle "are all sign-zero" against the
  other plane.\<close>

fun all_zero :: "sign_triple \<Rightarrow> bool" where
  "all_zero (a, b, c) = (a = ZERO \<and> b = ZERO \<and> c = ZERO)"

text \<open>Modelled from the spec: a sign pattern "with one or more exact zeros".\<close>

fun has_zero :: "sign_triple \<Rightarrow> bool" where
  "has_zero (a, b, c) = (a = ZERO \<or> b = ZERO \<or> c = ZERO)"

text \<open>
  Modelled from the spec: "exactly one vertex ... sign-isolated from the other two", the
  other plane strictly separating one vertex of the triangle from the remaining two: two
  vertices with one nonzero sign, the third with the opposite sign.
\<close>

fun sign_isolated :: "sign_triple \<Rightarrow> bool" where
  "sign_isolated (a, b, c) =
     (if a = ZERO \<or> b = ZERO \<or> c = ZERO then False
      else if a = b then b \<noteq> c
      else True)"

text \<open>
  Modelled from the spec: the topology classes of the dispatcher, and the outcome for "any
  combination not matching a known case".
\<close>

datatype topology = Disjoint | Coplanar | Transversal | Touching | Unmatched

text \<open>
  Modelled from the spec: the Topology Dispatcher, "a deterministic function of the two
  sign-triples". \<open>s1\<close> holds the signs of the vertices of triangle 1 against the plane of
  triangle 2, \<open>s2\<close> those of triangle 2 against the plane of triangle 1.
  \<^item> Disjoint by separation: "one triangle lies entirely to one side of the other's plane";
  \<^item> Coplanar: "both triangles' vertices are all sign-zero against each other's planes";
  \<^item> Transversal: "exactly one vertex of each triangle sign-isolated from the other two";
  \<^item> Touching: "sign patterns with one or more exact zeros" that are not coplanar;
  \<^item> anything else matches no known case.
\<close>

definition dispatch :: "sign_triple \<Rightarrow> sign_triple \<Rightarrow> topology" where
  "dispatch s1 s2 =
     (if one_side s1 \<or> one_side s2 then Disjoint
      else if all_zero s1 \<and> all_zero s2 then Coplanar
      else if sign_isolated s1 \<and> sign_isolated s2 then Transversal
      else if (has_zero s1 \<or> has_zero s2) \<and> \<not> all_zero s1 \<and> \<not> all_zero s2 then Touching
      else Unmatched)"

subsection \<open>Symbolic assembler\<close>

text \<open>
  Modelled from the spec: the Symbolic Assembler, which "for each topology class ... emits
  the concrete sequence of TriangleIsect pairs". The specification fixes neither the pairs
  nor the boolean it yields for a coplanar, a transversal or a touching pair of triangles
  beyond examples, so the three cases are fields of a record that the routine is given: each
  maps the two triangles to the boolean and the pairs.
\<close>

record assembler =
  coplanar_case :: "vec3 \<Rightarrow> vec3 \<Rightarrow> vec3 \<Rightarrow> vec3 \<Rightarrow> vec3 \<Rightarrow> vec3 \<Rightarrow> bool \<times> TriangleIsect list"
  transversal_case :: "vec3 \<Rightarrow> vec3 \<Rightarrow> vec3 \<Rightarrow> vec3 \<Rightarrow> vec3 \<Rightarrow> vec3 \<Rightarrow> bool \<times> TriangleIsect list"
  touching_case :: "vec3 \<Rightarrow> vec3 \<Rightarrow> vec3 \<Rightarrow> vec3 \<Rightarrow> vec3 \<Rightarrow> vec3 \<Rightarrow> bool \<times> TriangleIsect list"

subsection \<open>Degeneracy filter\<close>

text \<open>
  Modelled from the spec: the vertices the two triangles have in common, "taken as
  unordered vertex sets" and compared by "exact coordinate equality".
\<close>

definition common_vertices :: "vec3 \<Rightarrow> vec3 \<Rightarrow> vec3 \<Rightarrow> vec3 \<Rightarrow> vec3 \<Rightarrow> vec3 \<Rightarrow> vec3 set" where
  "common_vertices p0 p1 p2 q0 q1 q2 = {p0, p1, p2} \<inter> {q0, q1, q2}"

text \<open>Modelled from the spec: the triangles "share one or more vertices".\<close>

definition share_vertex :: "vec3 \<Rightarrow> vec3 \<Rightarrow> vec3 \<Rightarrow> vec3 \<Rightarrow> vec3 \<Rightarrow> vec3 \<Rightarrow> bool" where
  "share_vertex p0 p1 p2 q0 q1 q2 = (common_vertices p0 p1 p2 q0 q1 q2 \<noteq> {})"

text \<open>Modelled from the spec: the triangles "share an edge", that is two vertices.\<close>

definition share_edge :: "vec3 \<Rightarrow> vec3 \<Rightarrow> vec3 \<Rightarrow> vec3 \<Rightarrow> vec3 \<Rightarrow> vec3 \<Rightarrow> bool" where
  "share_edge p0 p1 p2 q0 q1 q2 = (2 \<le> card (common_vertices p0 p1 p2 q0 q1 q2))"

text \<open>Modelled from the spec: the triangles "are identical as triangles", their vertex
  sets equal, in any order.\<close>

definition identical_triangles :: "vec3 \<Rightarrow> vec3 \<Rightarrow> vec3 \<Rightarrow> vec3 \<Rightarrow> vec3 \<Rightarrow> vec3 \<Rightarrow> bool" where
  "identical_triangles p0 p1 p2 q0 q1 q2 = ({p0, p1, p2} = {q0, q1, q2})"

text \<open>
  Modelled from the spec: the test of the Degeneracy Filter, "detect whether the two input
  triangles ... share one or more vertices (exact coordinate equality), share an edge, or
  are identical as triangles".
\<close>

definition degenerate_relationship :: "vec3 \<Rightarrow> vec3 \<Rightarrow> vec3 \<Rightarrow> vec3 \<Rightarrow> vec3 \<Rightarrow> vec3 \<Rightarrow> bool" where
  "degenerate_relationship p0 p1 p2 q0 q1 q2 =
     (share_vertex p0 p1 p2 q0 q1 q2 \<or> share_edge p0 p1 p2 q0 q1 q2
      \<or> identical_triangles p0 p1 p2 q0 q1 q2)"

subsection \<open>The routine\<close>

text \<open>
  Modelled from the spec: the body of the seven-argument \<open>triangles_intersections\<close>, which
  the header only declares. The call takes the six points and the contents of \<open>result\<close>
  before the call, and gives the boolean and the contents of \<open>result\<close> after the call;
  "the result sequence is constructed fresh per call", so the old contents are not used.
  \<^item> The Degeneracy Filter comes first and "force[s] the reported result to boolean false
    with an empty pair sequence, overriding whatever the Topology Dispatcher / Assembler
    would otherwise produce".
  \<^item> The Vertex Classifier produces the two sign-triples, "the sole input to the Topology
    Dispatcher".
  \<^item> Disjoint by separation: "Result: empty, boolean false".
  \<^item> A combination that matches no known case "must be treated as no intersection
    defensively, never as a crash".
  \<^item> In the three other classes the assembler \<open>A\<close> gives the result.
\<close>

definition triangles_intersections ::
  "assembler \<Rightarrow> vec3 \<Rightarrow> vec3 \<Rightarrow> vec3 \<Rightarrow> vec3 \<Rightarrow> vec3 \<Rightarrow> vec3 \<Rightarrow> TriangleIsect list
     \<Rightarrow> bool \<times> TriangleIsect list" where
  "triangles_intersections A p0 p1 p2 q0 q1 q2 result =
     (if degenerate_relationship p0 p1 p2 q0 q1 q2 then (False, [])
      else
        (case dispatch (sign_triple q0 q1 q2 p0 p1 p2) (sign_triple p0 p1 p2 q0 q1 q2) of
           Disjoint \<Rightarrow> (False, [])
         | Coplanar \<Rightarrow> coplanar_case A p0 p1 p2 q0 q1 q2
         | Transversal \<Rightarrow> transversal_case A p0 p1 p2 q0 q1 q2
         | Touching \<Rightarrow> touching_case A p0 p1 p2 q0 q1 q2
         | Unmatched \<Rightarrow> (False, [])))"


section \<open>Properties\<close>

subsection \<open>The enumeration\<close>

lemma regions_closed: "set (T1_regions @ T2_regions) = UNIV - {T_RGN_NB}"
proof (rule set_eqI)
  fix r show "r \<in> set (T1_regions @ T2_regions) \<longleftrightarrow> r \<in> UNIV - {T_RGN_NB}"
    by (cases r) (simp_all add: T1_regions_def T2_regions_def)
qed

lemma region_codes_list:
  "map region_code (T1_regions @ T2_regions) = [0, 1, 2, 6, 7, 8, 12, 3, 4, 5, 9, 10, 11, 13]"
  by (simp add: T1_regions_def T2_regions_def)

lemma upt_fourteen: "[0 ..< 14] = [0, 1, 2, 3, 4, 5, 6, 7, 8, 9, 10, 11, 12, 13 :: nat]"
  by (simp add: upt_rec)

lemma region_codes_range: "region_code ` set (T1_regions @ T2_regions) = {0 ..< 14}"
proof -
  have "{0 ..< 14 :: nat} = set [0 ..< 14]"
    by simp
  also have "\<dots> = set [0, 1, 2, 3, 4, 5, 6, 7, 8, 9, 10, 11, 12, 13 :: nat]"
    by (simp only: upt_fourteen)
  finally have range: "{0 ..< 14 :: nat} = set [0, 1, 2, 3, 4, 5, 6, 7, 8, 9, 10, 11, 12, 13 :: nat]" .
  have "region_code ` set (T1_regions @ T2_regions)
          = set (map region_code (T1_regions @ T2_regions))"
    by (simp only: set_map)
  also have "\<dots> = set [0, 1, 2, 6, 7, 8, 12, 3, 4, 5, 9, 10, 11, 13]"
    by (simp only: region_codes_list)
  also have "\<dots> = set [0, 1, 2, 3, 4, 5, 6, 7, 8, 9, 10, 11, 12, 13 :: nat]"
    by auto
  finally show ?thesis
    using range by simp
qed

text \<open>
  C8. \<open>TriangleRegion\<close> has exactly 14 region symbols, seven for each triangle (three
  vertices, three edges, the interior). They are pairwise distinct, as symbols and as
  integer values; the values are \<open>0, ..., 13\<close>, and the header's count \<open>T_RGN_NB\<close> is
  14. The enumeration is closed: every value other than the count is one of the 14 symbols.
  The symbols of triangle 1 are disjoint from the symbols of triangle 2.
\<close>

theorem TriangleRegion_fourteen_disjoint:
  "length (T1_regions @ T2_regions) = 14
   \<and> distinct (T1_regions @ T2_regions)
   \<and> distinct (map region_code (T1_regions @ T2_regions))
   \<and> region_code ` set (T1_regions @ T2_regions) = {0 ..< 14}
   \<and> region_code T_RGN_NB = length (T1_regions @ T2_regions)
   \<and> set (T1_regions @ T2_regions) = UNIV - {T_RGN_NB}
   \<and> length T1_regions = 7 \<and> length T2_regions = 7
   \<and> set T1_regions \<inter> set T2_regions = {}"
proof -
  have sizes: "length (T1_regions @ T2_regions) = 14" "length T1_regions = 7"
    "length T2_regions = 7"
    by (simp_all add: T1_regions_def T2_regions_def)
  have codes_distinct: "distinct (map region_code (T1_regions @ T2_regions))"
    by (simp only: region_codes_list) simp
  then have symbols_distinct: "distinct (T1_regions @ T2_regions)"
    by (rule distinct_map [THEN iffD1, THEN conjunct1])
  then have disjoint: "set T1_regions \<inter> set T2_regions = {}"
    by simp
  have count: "region_code T_RGN_NB = length (T1_regions @ T2_regions)"
    by (simp add: sizes)
  from sizes codes_distinct symbols_distinct disjoint count region_codes_range regions_closed
  show ?thesis by blast
qed

subsection \<open>The boolean-only overload\<close>

text \<open>
  C7. Whatever the seven-argument overload computes, the boolean-only overload returns, for
  every six points, the boolean that the seven-argument overload returns on the same points
  and a fresh empty result vector.
\<close>

theorem triangles_intersections_bool_eq_full:
  "triangles_intersections_bool full p0 p1 p2 q0 q1 q2 = fst (full p0 p1 p2 q0 q1 q2 [])"
  by (simp add: triangles_intersections_bool_def split: prod.split)

subsection \<open>Printing\<close>

lemma appended_fields [simp]:
  "os_good (appended out s) = os_good out"
  "os_width (appended out s) = os_width out"
  "os_text (appended out s) = os_text out @ s"
  "os_fill (appended out s) = os_fill out"
  "os_left (appended out s) = os_left out"
  by (simp_all add: appended_def)

lemma appended_appended: "appended (appended out s) t = appended out (s @ t)"
  by (simp add: appended_def split: option.split)

lemma appended_Nil: "appended out [] = out"
  by (simp add: appended_def split: option.split)

lemma has_room_appended:
  "has_room out (length s + n) \<Longrightarrow> has_room out (length s) \<and> has_room (appended out s) n"
  by (auto simp add: has_room_def appended_def split: option.splits)

text \<open>One insertion into a good stream with no pending width and enough room.\<close>

lemma put_string_good:
  assumes "os_good out" and "os_width out = 0" and "has_room out (length s)"
  shows "put_string out s = appended out s"
proof (cases "os_room out")
  case None
  with assms show ?thesis
    by (cases out) (simp add: put_string_def ostream_write_def appended_def)
next
  case (Some r)
  with assms show ?thesis
    by (cases out) (simp add: put_string_def ostream_write_def appended_def has_room_def)
qed

text \<open>An insertion into a stream that is not good does nothing.\<close>

lemma put_string_not_good: "\<not> os_good out \<Longrightarrow> put_string out s = out"
  by (simp add: put_string_def)

lemma has_room_mono: "has_room out n \<Longrightarrow> m \<le> n \<Longrightarrow> has_room out m"
  by (simp add: has_room_def split: option.splits)

lemma put_string_appended:
  assumes "os_good out" and "os_width out = 0" and "has_room out (length s + length t)"
  shows "put_string (appended out s) t = appended out (s @ t)"
proof -
  from has_room_appended [OF assms(3)] have "has_room (appended out s) (length t)"
    by simp
  with assms(1,2) have "put_string (appended out s) t = appended (appended out s) t"
    by (intro put_string_good) simp_all
  then show ?thesis
    by (simp only: appended_appended)
qed

text \<open>The four insertions that follow the opening bracket.\<close>

lemma put_rest_good:
  assumes "os_good out" and "os_width out = 0"
    and room: "has_room out (length (a @ '','' @ b @ '')''))"
  shows "put_string (put_string (put_string (put_string out a) '','') b) '')''
           = appended out (a @ '','' @ b @ '')'')"
proof -
  have s1: "put_string out a = appended out a"
    using assms(1,2) by (rule put_string_good) (rule has_room_mono [OF room], simp)
  have s2: "put_string (appended out a) '','' = appended out (a @ '','')"
    using assms(1,2) by (rule put_string_appended) (rule has_room_mono [OF room], simp)
  have s3: "put_string (appended out (a @ '','')) b = appended out ((a @ '','') @ b)"
    using assms(1,2) by (rule put_string_appended) (rule has_room_mono [OF room], simp)
  have s4: "put_string (appended out ((a @ '','') @ b)) '')'' = appended out (((a @ '','') @ b) @ '')'')"
    using assms(1,2) by (rule put_string_appended) (rule has_room_mono [OF room], simp)
  have "put_string (put_string (put_string (put_string out a) '','') b) '')''
          = appended out (((a @ '','') @ b) @ '')'')"
    by (simp only: s1 s2 s3 s4)
  then show ?thesis
    by simp
qed

lemma put_isect_good:
  assumes "os_good out" and "os_width out = 0"
    and room: "has_room out (length (isect_text r2s I))"
  shows "put_isect r2s out I = appended out (isect_text r2s I)"
proof -
  let ?rest = "r2s (fst I) @ '','' @ r2s (snd I) @ '')''"
  from room have total: "has_room out (length ''('' + length ?rest)"
    by (simp add: isect_text_def)
  have first: "put_string out ''('' = appended out ''(''"
    using assms(1,2) by (rule put_string_good) (rule has_room_mono [OF total], simp)
  from has_room_appended [OF total] have "has_room (appended out ''('') (length ?rest)"
    by simp
  with assms(1,2)
  have "put_string (put_string (put_string (put_string (appended out ''('') (r2s (fst I))) '','')
          (r2s (snd I))) '')'' = appended (appended out ''('') ?rest"
    by (intro put_rest_good) simp_all
  then have "put_isect r2s out I = appended (appended out ''('') ?rest"
    by (simp only: put_isect_def first)
  then show ?thesis
    by (simp only: appended_appended isect_text_def)
qed

lemma put_isect_not_good: "\<not> os_good out \<Longrightarrow> put_isect r2s out I = out"
  by (simp add: put_isect_def put_string_not_good)

lemma put_isects_from_good:
  "os_good out \<Longrightarrow> os_width out = 0 \<Longrightarrow> has_room out (length (isects_text r2s (drop i II)))
     \<Longrightarrow> put_isects_from r2s II i out = appended out (isects_text r2s (drop i II))"
proof (induction r2s II i out rule: put_isects_from.induct)
  case (1 r2s II i out)
  show ?case
  proof (cases "i < length II")
    case True
    let ?e = "isect_text r2s (II ! i)"
    let ?rest = "isects_text r2s (drop (Suc i) II)"
    from True have split: "isects_text r2s (drop i II) = ?e @ '' '' @ ?rest"
      by (simp add: isects_text_def Cons_nth_drop_Suc [symmetric])
    with "1.prems"(3) have "has_room out (length ?e + (length '' '' + length ?rest))"
      by simp
    from has_room_appended [OF this]
    have re: "has_room out (length ?e)"
      and room1: "has_room (appended out ?e) (length '' '' + length ?rest)"
      by simp_all
    from has_room_appended [OF room1]
    have rs: "has_room (appended out ?e) (length '' '')"
      and rr: "has_room (appended (appended out ?e) '' '') (length ?rest)"
      by simp_all
    have e: "put_isect r2s out (II ! i) = appended out ?e"
      using "1.prems"(1,2) re by (rule put_isect_good)
    have sp: "put_string (appended out ?e) '' '' = appended (appended out ?e) '' ''"
      using "1.prems"(1,2) rs by (intro put_string_good) simp_all
    have "put_isects_from r2s II i out
            = put_isects_from r2s II (Suc i) (appended (appended out ?e) '' '')"
      using True by (subst put_isects_from.simps) (simp add: e sp)
    also have "\<dots> = appended (appended (appended out ?e) '' '') ?rest"
      using True "1.prems"(1,2) rr "1.IH" [OF True] by (simp add: e sp)
    also have "\<dots> = appended out (isects_text r2s (drop i II))"
      by (simp only: split appended_appended append_assoc)
    finally show ?thesis .
  next
    case False
    then show ?thesis
      by (subst put_isects_from.simps) (simp add: isects_text_def appended_Nil)
  qed
qed

lemma put_isects_from_not_good:
  "\<not> os_good out \<Longrightarrow> put_isects_from r2s II i out = out"
proof (induction r2s II i out rule: put_isects_from.induct)
  case (1 r2s II i out)
  show ?case
  proof (cases "i < length II")
    case True
    with "1.prems" have "put_string (put_isect r2s out (II ! i)) '' '' = out"
      by (simp add: put_isect_not_good put_string_not_good)
    with True "1.prems" "1.IH" [OF True] show ?thesis
      by (subst put_isects_from.simps) simp
  next
    case False
    then show ?thesis
      by (subst put_isects_from.simps) simp
  qed
qed

text \<open>
  With a pending field width \<open>w\<close> the opening bracket is padded to \<open>w\<close> characters: here on
  a good stream whose buffer never fails and whose adjustment is not \<open>left\<close>. The width is
  reset by that first insertion, so nothing else is padded.
\<close>

lemma put_isect_pending_width:
  assumes "os_good out" and "os_room out = None" and "\<not> os_left out" and "1 < os_width out"
  shows "put_isect r2s out I =
           out\<lparr>os_text := os_text out @ replicate (os_width out - 1) (os_fill out) @ isect_text r2s I,
               os_width := 0\<rparr>"
proof -
  let ?o1 = "out\<lparr>os_text := os_text out @ replicate (os_width out - 1) (os_fill out) @ ''('',
               os_width := 0\<rparr>"
  have first: "put_string out ''('' = ?o1"
    using assms by (cases out) (simp add: put_string_def ostream_fill_def ostream_write_def)
  have "os_good ?o1" and "os_width ?o1 = 0"
    and "has_room ?o1 (length (r2s (fst I) @ '','' @ r2s (snd I) @ '')''))"
    using assms by (simp_all add: has_room_def)
  then have "put_string (put_string (put_string (put_string ?o1 (r2s (fst I))) '','') (r2s (snd I))) '')''
                = appended ?o1 (r2s (fst I) @ '','' @ r2s (snd I) @ '')'')"
    by (rule put_rest_good)
  then have "put_isect r2s out I = appended ?o1 (r2s (fst I) @ '','' @ r2s (snd I) @ '')'')"
    by (simp only: put_isect_def first)
  with assms show ?thesis
    by (simp add: appended_def isect_text_def)
qed




section \<open>Properties of the routine as specified\<close>

text \<open>
  The theorems of this section are about \<open>triangles_intersections\<close> as modelled from its
  specification; they hold for every assembler \<open>A\<close>.
\<close>

subsection \<open>Helper facts\<close>

lemma filter_overrides:
  "degenerate_relationship p0 p1 p2 q0 q1 q2 \<Longrightarrow>
     triangles_intersections A p0 p1 p2 q0 q1 q2 result = (False, [])"
  by (simp add: triangles_intersections_def)

lemma dispatch_one_side: "one_side s2 \<Longrightarrow> dispatch s1 s2 = Disjoint"
  by (simp add: dispatch_def)

lemma one_side_uniform: "s \<noteq> ZERO \<Longrightarrow> one_side (s, s, s)"
  by (cases s) simp_all

subsection \<open>Vector algebra\<close>

lemma vec3_zero_iff: "(v = \<lparr>x = 0, y = 0, z = 0\<rparr>) \<longleftrightarrow> (x v = 0 \<and> y v = 0 \<and> z v = 0)"
  by (cases v) simp

lemma dot_self_zero: "dot n n = 0 \<longleftrightarrow> n = \<lparr>x = 0, y = 0, z = 0\<rparr>"
proof -
  have "dot n n = (x n)\<^sup>2 + (y n)\<^sup>2 + (z n)\<^sup>2"
    by (simp add: dot_def power2_eq_square)
  then have "dot n n = 0 \<longleftrightarrow> x n = 0 \<and> y n = 0 \<and> z n = 0"
    by (simp add: add_nonneg_eq_0_iff)
  then show ?thesis
    by (simp add: vec3_zero_iff)
qed

lemma binet_cauchy:
  "dot n n * dot m v = dot n m * dot n v + dot (cross n m) (cross n v)"
  by (simp add: dot_def cross_def algebra_simps)

lemma cross_cross:
  "cross n (cross a b) =
     \<lparr>x = x a * dot n b - x b * dot n a, y = y a * dot n b - y b * dot n a,
      z = z a * dot n b - z b * dot n a\<rparr>"
  by (simp add: dot_def cross_def algebra_simps)

lemma dot_vsub: "dot n (vsub a b) = dot n a - dot n b"
  by (simp add: dot_def vsub_def algebra_simps)

lemma dot_zero_left: "dot \<lparr>x = 0, y = 0, z = 0\<rparr> v = 0"
  by (simp add: dot_def)

lemma normal_own_edges:
  "dot (cross (vsub b a) (vsub c a)) (vsub b a) = 0"
  "dot (cross (vsub b a) (vsub c a)) (vsub c a) = 0"
  by (simp_all add: dot_def cross_def vsub_def algebra_simps)


lemma sign_of_zero_iff: "sign_of r = ZERO \<longleftrightarrow> r = 0"
  by (simp add: sign_of_def)

lemma classify_zero_iff:
  "classify a b c d = ZERO \<longleftrightarrow> dot (cross (vsub b a) (vsub c a)) (vsub d a) = 0"
  by (simp add: classify_def orient_3d_def sign_of_zero_iff)

lemma all_zero_sign_triple:
  "all_zero (sign_triple a b c u v w) \<longleftrightarrow>
     dot (cross (vsub b a) (vsub c a)) (vsub u a) = 0
     \<and> dot (cross (vsub b a) (vsub c a)) (vsub v a) = 0
     \<and> dot (cross (vsub b a) (vsub c a)) (vsub w a) = 0"
  by (simp add: sign_triple_def classify_zero_iff)

lemma dot_vsub_shift: "dot n (vsub a b) = dot n (vsub a c) - dot n (vsub b c)"
  by (simp add: dot_def vsub_def algebra_simps)

text \<open>A vertex of a triangle has sign zero against the plane of that triangle.\<close>

lemma own_vertices_sign_zero:
  "classify p0 p1 p2 p0 = ZERO" "classify p0 p1 p2 p1 = ZERO" "classify p0 p1 p2 p2 = ZERO"
  by (simp_all add: classify_zero_iff dot_def cross_def vsub_def algebra_simps)

text \<open>
  Coplanarity goes both ways: if the first triangle is not degenerate and the three vertices
  of the second lie in its plane, the three vertices of the first lie in the plane of the
  second. With \<open>n\<close> and \<open>m\<close> the two normals, \<open>n\<close> is orthogonal to two edges of the
  second triangle, hence parallel to \<open>m\<close>.
\<close>

lemma coplanar_transfer:
  assumes n: "cross (vsub p1 p0) (vsub p2 p0) \<noteq> \<lparr>x = 0, y = 0, z = 0\<rparr>"
    and q: "all_zero (sign_triple p0 p1 p2 q0 q1 q2)"
  shows "all_zero (sign_triple q0 q1 q2 p0 p1 p2)"
proof -
  define n where "n = cross (vsub p1 p0) (vsub p2 p0)"
  define m where "m = cross (vsub q1 q0) (vsub q2 q0)"
  from q have q0: "dot n (vsub q0 p0) = 0" and q1: "dot n (vsub q1 p0) = 0"
    and q2: "dot n (vsub q2 p0) = 0"
    by (simp_all add: all_zero_sign_triple n_def)
  have a: "dot n (vsub q1 q0) = 0"
    using q0 q1 dot_vsub_shift [of n q1 q0 p0] by simp
  have b: "dot n (vsub q2 q0) = 0"
    using q0 q2 dot_vsub_shift [of n q2 q0 p0] by simp
  have parallel: "cross n m = \<lparr>x = 0, y = 0, z = 0\<rparr>"
    unfolding m_def by (simp add: cross_cross a b)
  have nn: "dot n n \<noteq> 0"
    using n by (simp add: dot_self_zero n_def)
  have own: "dot n (vsub p0 p0) = 0" "dot n (vsub p1 p0) = 0" "dot n (vsub p2 p0) = 0"
    unfolding n_def by (simp_all add: dot_def cross_def vsub_def algebra_simps)
  have in_plane: "dot m (vsub p q0) = 0" if "dot n (vsub p p0) = 0" for p
  proof -
    have "dot n (vsub p q0) = 0"
      using that q0 dot_vsub_shift [of n p q0 p0] by simp
    with binet_cauchy [of n m "vsub p q0"] parallel
    have "dot n n * dot m (vsub p q0) = 0"
      by (simp add: dot_zero_left)
    with nn show ?thesis by simp
  qed
  from in_plane [OF own(1)] in_plane [OF own(2)] in_plane [OF own(3)]
  show ?thesis
    by (simp add: all_zero_sign_triple m_def)
qed


subsection \<open>The dispatcher\<close>

lemma sign_triple_trichotomy: "one_side s \<or> sign_isolated s \<or> has_zero s"
proof (cases s)
  case (fields a b c)
  then show ?thesis
    by (cases a; cases b; cases c) simp_all
qed

lemma all_zero_excludes: "all_zero s \<Longrightarrow> has_zero s \<and> \<not> sign_isolated s \<and> \<not> one_side s"
  by (cases s) simp

lemma sign_isolated_no_zero: "sign_isolated s \<Longrightarrow> \<not> has_zero s"
  by (cases s) (simp split: if_splits)

lemma dispatch_unmatched_iff:
  "dispatch s1 s2 = Unmatched \<longleftrightarrow>
     \<not> one_side s1 \<and> \<not> one_side s2 \<and> (all_zero s1 \<noteq> all_zero s2)"
proof -
  consider "one_side s1 \<or> one_side s2"
    | "\<not> one_side s1" "\<not> one_side s2" "all_zero s1" "all_zero s2"
    | "\<not> one_side s1" "\<not> one_side s2" "all_zero s1" "\<not> all_zero s2"
    | "\<not> one_side s1" "\<not> one_side s2" "\<not> all_zero s1" "all_zero s2"
    | "\<not> one_side s1" "\<not> one_side s2" "\<not> all_zero s1" "\<not> all_zero s2"
    by blast
  then show ?thesis
  proof cases
    case 1
    then show ?thesis by (auto simp add: dispatch_def)
  next
    case 2
    then show ?thesis by (simp add: dispatch_def)
  next
    case 3
    with all_zero_excludes [of s1] show ?thesis by (simp add: dispatch_def)
  next
    case 4
    with all_zero_excludes [of s2] show ?thesis by (simp add: dispatch_def)
  next
    case 5
    show ?thesis
    proof (cases "sign_isolated s1 \<and> sign_isolated s2")
      case True
      with 5 show ?thesis by (simp add: dispatch_def)
    next
      case False
      with 5 sign_triple_trichotomy [of s1] sign_triple_trichotomy [of s2]
      have "has_zero s1 \<or> has_zero s2" by blast
      with 5 False show ?thesis by (simp add: dispatch_def)
    qed
  qed
qed

text \<open>
  The dispatcher leaves no gap on valid input: when both triangles are valid, their
  sign-triples always match one of the known topologies.
\<close>

lemma valid_triangles_never_unmatched:
  assumes "valid_triangle p0 p1 p2" and "valid_triangle q0 q1 q2"
  shows "dispatch (sign_triple q0 q1 q2 p0 p1 p2) (sign_triple p0 p1 p2 q0 q1 q2) \<noteq> Unmatched"
proof -
  from assms have P: "cross (vsub p1 p0) (vsub p2 p0) \<noteq> \<lparr>x = 0, y = 0, z = 0\<rparr>"
    and Q: "cross (vsub q1 q0) (vsub q2 q0) \<noteq> \<lparr>x = 0, y = 0, z = 0\<rparr>"
    by (simp_all add: valid_triangle_def)
  have "all_zero (sign_triple q0 q1 q2 p0 p1 p2) = all_zero (sign_triple p0 p1 p2 q0 q1 q2)"
    using coplanar_transfer [OF P] coplanar_transfer [OF Q] by blast
  then show ?thesis
    by (simp add: dispatch_unmatched_iff)
qed

text \<open>
  The two examples of the specification fall into the classes it names for them: the
  overlapping triangles of the plane \<open>z = 0\<close> are coplanar, and the triangle that pierces
  the plane of the other through its interior is a transversal crossing.
\<close>

lemma dispatch_spec_examples:
  "dispatch
     (sign_triple \<lparr>x = 1/2, y = - 1/2, z = 0\<rparr> \<lparr>x = 1/2, y = 3/2, z = 0\<rparr> \<lparr>x = - 1, y = 1/2, z = 0\<rparr>
        \<lparr>x = 0, y = 0, z = 0\<rparr> \<lparr>x = 1, y = 0, z = 0\<rparr> \<lparr>x = 0, y = 1, z = 0\<rparr>)
     (sign_triple \<lparr>x = 0, y = 0, z = 0\<rparr> \<lparr>x = 1, y = 0, z = 0\<rparr> \<lparr>x = 0, y = 1, z = 0\<rparr>
        \<lparr>x = 1/2, y = - 1/2, z = 0\<rparr> \<lparr>x = 1/2, y = 3/2, z = 0\<rparr> \<lparr>x = - 1, y = 1/2, z = 0\<rparr>)
     = Coplanar"
  "dispatch
     (sign_triple \<lparr>x = 0, y = 0, z = 1\<rparr> \<lparr>x = 1, y = 0, z = 1\<rparr> \<lparr>x = 0, y = 1, z = - 1\<rparr>
        \<lparr>x = 0, y = 0, z = 0\<rparr> \<lparr>x = 1, y = 0, z = 0\<rparr> \<lparr>x = 0, y = 1, z = 0\<rparr>)
     (sign_triple \<lparr>x = 0, y = 0, z = 0\<rparr> \<lparr>x = 1, y = 0, z = 0\<rparr> \<lparr>x = 0, y = 1, z = 0\<rparr>
        \<lparr>x = 0, y = 0, z = 1\<rparr> \<lparr>x = 1, y = 0, z = 1\<rparr> \<lparr>x = 0, y = 1, z = - 1\<rparr>)
     = Transversal"
  by (simp_all add: dispatch_def sign_triple_def classify_def orient_3d_def sign_of_def
      dot_def cross_def vsub_def)

subsection \<open>Degenerate relationships\<close>

text \<open>
  C1. Two valid triangles that share at least one vertex by exact coordinate equality, or
  share an edge (two vertices), or have the same vertex set in any order: the routine
  returns false and the result sequence is empty, whatever the assembler would have
  reported for their overlap.
\<close>

theorem shared_features_give_false_empty:
  assumes "valid_triangle p0 p1 p2" and "valid_triangle q0 q1 q2"
    and "share_vertex p0 p1 p2 q0 q1 q2 \<or> share_edge p0 p1 p2 q0 q1 q2
           \<or> identical_triangles p0 p1 p2 q0 q1 q2"
  shows "triangles_intersections A p0 p1 p2 q0 q1 q2 result = (False, [])"
proof -
  from assms(3) have "degenerate_relationship p0 p1 p2 q0 q1 q2"
    by (simp add: degenerate_relationship_def)
  then show ?thesis
    by (rule filter_overrides)
qed

text \<open>
  The theorem at three pairs of valid triangles: one common vertex with the second
  triangle piercing the first through its interior, one common edge, and the same triangle
  with its vertices rotated.
\<close>

theorem shared_features_give_false_empty_witness:
  "valid_triangle \<lparr>x = 0, y = 0, z = 0\<rparr> \<lparr>x = 1, y = 0, z = 0\<rparr> \<lparr>x = 0, y = 1, z = 0\<rparr>
   \<and> valid_triangle \<lparr>x = 0, y = 0, z = 0\<rparr> \<lparr>x = 1/4, y = 1/4, z = 1\<rparr> \<lparr>x = 1/4, y = 1/4, z = - 1\<rparr>
   \<and> share_vertex \<lparr>x = 0, y = 0, z = 0\<rparr> \<lparr>x = 1, y = 0, z = 0\<rparr> \<lparr>x = 0, y = 1, z = 0\<rparr>
         \<lparr>x = 0, y = 0, z = 0\<rparr> \<lparr>x = 1/4, y = 1/4, z = 1\<rparr> \<lparr>x = 1/4, y = 1/4, z = - 1\<rparr>
   \<and> (\<forall>A result.
         triangles_intersections A
           \<lparr>x = 0, y = 0, z = 0\<rparr> \<lparr>x = 1, y = 0, z = 0\<rparr> \<lparr>x = 0, y = 1, z = 0\<rparr>
           \<lparr>x = 0, y = 0, z = 0\<rparr> \<lparr>x = 1/4, y = 1/4, z = 1\<rparr> \<lparr>x = 1/4, y = 1/4, z = - 1\<rparr>
           result = (False, []))
   \<and> valid_triangle \<lparr>x = 0, y = 0, z = 0\<rparr> \<lparr>x = 1, y = 0, z = 0\<rparr> \<lparr>x = 0, y = - 1, z = 0\<rparr>
   \<and> share_edge \<lparr>x = 0, y = 0, z = 0\<rparr> \<lparr>x = 1, y = 0, z = 0\<rparr> \<lparr>x = 0, y = 1, z = 0\<rparr>
         \<lparr>x = 0, y = 0, z = 0\<rparr> \<lparr>x = 1, y = 0, z = 0\<rparr> \<lparr>x = 0, y = - 1, z = 0\<rparr>
   \<and> (\<forall>A result.
         triangles_intersections A
           \<lparr>x = 0, y = 0, z = 0\<rparr> \<lparr>x = 1, y = 0, z = 0\<rparr> \<lparr>x = 0, y = 1, z = 0\<rparr>
           \<lparr>x = 0, y = 0, z = 0\<rparr> \<lparr>x = 1, y = 0, z = 0\<rparr> \<lparr>x = 0, y = - 1, z = 0\<rparr>
           result = (False, []))
   \<and> valid_triangle \<lparr>x = 1, y = 0, z = 0\<rparr> \<lparr>x = 0, y = 1, z = 0\<rparr> \<lparr>x = 0, y = 0, z = 0\<rparr>
   \<and> identical_triangles \<lparr>x = 0, y = 0, z = 0\<rparr> \<lparr>x = 1, y = 0, z = 0\<rparr> \<lparr>x = 0, y = 1, z = 0\<rparr>
         \<lparr>x = 1, y = 0, z = 0\<rparr> \<lparr>x = 0, y = 1, z = 0\<rparr> \<lparr>x = 0, y = 0, z = 0\<rparr>
   \<and> (\<forall>A result.
         triangles_intersections A
           \<lparr>x = 0, y = 0, z = 0\<rparr> \<lparr>x = 1, y = 0, z = 0\<rparr> \<lparr>x = 0, y = 1, z = 0\<rparr>
           \<lparr>x = 1, y = 0, z = 0\<rparr> \<lparr>x = 0, y = 1, z = 0\<rparr> \<lparr>x = 0, y = 0, z = 0\<rparr>
           result = (False, []))"
proof -
  let ?a = "\<lparr>x = 0, y = 0, z = 0\<rparr> :: vec3"
  let ?b = "\<lparr>x = 1, y = 0, z = 0\<rparr> :: vec3"
  let ?c = "\<lparr>x = 0, y = 1, z = 0\<rparr> :: vec3"
  let ?u = "\<lparr>x = 1/4, y = 1/4, z = 1\<rparr> :: vec3"
  let ?v = "\<lparr>x = 1/4, y = 1/4, z = - 1\<rparr> :: vec3"
  let ?w = "\<lparr>x = 0, y = - 1, z = 0\<rparr> :: vec3"
  have P: "valid_triangle ?a ?b ?c"
    by (simp add: valid_triangle_def cross_def vsub_def)
  have Q1: "valid_triangle ?a ?u ?v"
    by (simp add: valid_triangle_def cross_def vsub_def)
  have Q2: "valid_triangle ?a ?b ?w"
    by (simp add: valid_triangle_def cross_def vsub_def)
  have Q3: "valid_triangle ?b ?c ?a"
    by (simp add: valid_triangle_def cross_def vsub_def)
  have S1: "share_vertex ?a ?b ?c ?a ?u ?v"
    by (simp add: share_vertex_def common_vertices_def)
  have S2: "share_edge ?a ?b ?c ?a ?b ?w"
    by (simp add: share_edge_def common_vertices_def)
  have S3: "identical_triangles ?a ?b ?c ?b ?c ?a"
    by (simp add: identical_triangles_def set_eq_subset)
  from P Q1 Q2 Q3 S1 S2 S3
    shared_features_give_false_empty [OF P Q1 disjI1, OF S1]
    shared_features_give_false_empty [OF P Q2 disjI2, OF disjI1, OF S2]
    shared_features_give_false_empty [OF P Q3 disjI2, OF disjI2, OF S3]
  show ?thesis by blast
qed

subsection \<open>Separation\<close>

text \<open>
  C5. Two valid triangles such that the three vertices of triangle 2 have the same nonzero
  orientation sign against the plane of triangle 1, that is, lie strictly on one side of it:
  the routine returns false and the result sequence is empty.
\<close>

theorem separation_fast_path:
  assumes "valid_triangle p0 p1 p2" and "valid_triangle q0 q1 q2"
    and "classify p0 p1 p2 q0 = s" and "classify p0 p1 p2 q1 = s"
    and "classify p0 p1 p2 q2 = s" and "s \<noteq> ZERO"
  shows "triangles_intersections A p0 p1 p2 q0 q1 q2 result = (False, [])"
proof (cases "degenerate_relationship p0 p1 p2 q0 q1 q2")
  case True
  then show ?thesis by (rule filter_overrides)
next
  case False
  from assms(3-5) have "sign_triple p0 p1 p2 q0 q1 q2 = (s, s, s)"
    by (simp add: sign_triple_def)
  moreover from assms(6) have "one_side (s, s, s)"
    by (rule one_side_uniform)
  ultimately have "one_side (sign_triple p0 p1 p2 q0 q1 q2)"
    by (simp only:)
  then have "dispatch (sign_triple q0 q1 q2 p0 p1 p2) (sign_triple p0 p1 p2 q0 q1 q2) = Disjoint"
    by (rule dispatch_one_side)
  with False show ?thesis
    by (simp add: triangles_intersections_def)
qed

text \<open>
  The theorem at a triangle 2 that lies above the plane of triangle 1, while its own plane
  cuts triangle 1.
\<close>

theorem separation_fast_path_witness:
  "valid_triangle \<lparr>x = 0, y = 0, z = 0\<rparr> \<lparr>x = 1, y = 0, z = 0\<rparr> \<lparr>x = 0, y = 1, z = 0\<rparr>
   \<and> valid_triangle \<lparr>x = 1/4, y = 1/4, z = 1\<rparr> \<lparr>x = 1/2, y = 1/4, z = 2\<rparr> \<lparr>x = 1/4, y = 1/2, z = 3\<rparr>
   \<and> sign_triple \<lparr>x = 0, y = 0, z = 0\<rparr> \<lparr>x = 1, y = 0, z = 0\<rparr> \<lparr>x = 0, y = 1, z = 0\<rparr>
        \<lparr>x = 1/4, y = 1/4, z = 1\<rparr> \<lparr>x = 1/2, y = 1/4, z = 2\<rparr> \<lparr>x = 1/4, y = 1/2, z = 3\<rparr>
       = (POSITIVE, POSITIVE, POSITIVE)
   \<and> (\<forall>A result.
         triangles_intersections A
           \<lparr>x = 0, y = 0, z = 0\<rparr> \<lparr>x = 1, y = 0, z = 0\<rparr> \<lparr>x = 0, y = 1, z = 0\<rparr>
           \<lparr>x = 1/4, y = 1/4, z = 1\<rparr> \<lparr>x = 1/2, y = 1/4, z = 2\<rparr> \<lparr>x = 1/4, y = 1/2, z = 3\<rparr>
           result = (False, []))"
proof -
  let ?a = "\<lparr>x = 0, y = 0, z = 0\<rparr> :: vec3"
  let ?b = "\<lparr>x = 1, y = 0, z = 0\<rparr> :: vec3"
  let ?c = "\<lparr>x = 0, y = 1, z = 0\<rparr> :: vec3"
  let ?u = "\<lparr>x = 1/4, y = 1/4, z = 1\<rparr> :: vec3"
  let ?v = "\<lparr>x = 1/2, y = 1/4, z = 2\<rparr> :: vec3"
  let ?w = "\<lparr>x = 1/4, y = 1/2, z = 3\<rparr> :: vec3"
  have P: "valid_triangle ?a ?b ?c"
    by (simp add: valid_triangle_def cross_def vsub_def)
  have Q: "valid_triangle ?u ?v ?w"
    by (simp add: valid_triangle_def cross_def vsub_def)
  have u: "classify ?a ?b ?c ?u = POSITIVE"
    by (simp add: classify_def orient_3d_def sign_of_def dot_def cross_def vsub_def)
  have v: "classify ?a ?b ?c ?v = POSITIVE"
    by (simp add: classify_def orient_3d_def sign_of_def dot_def cross_def vsub_def)
  have w: "classify ?a ?b ?c ?w = POSITIVE"
    by (simp add: classify_def orient_3d_def sign_of_def dot_def cross_def vsub_def)
  have "POSITIVE \<noteq> ZERO"
    by simp
  from separation_fast_path [OF P Q u v w this] P Q u v w
  show ?thesis
    by (simp add: sign_triple_def)
qed

end
